theory Spec2Isabelle
  imports Main "HOL-Library.Sublist"
begin

section \<open>Strings and characters\<close>

text \<open>
  A JavaScript string is a sequence of UTF-16 code units. The model uses \<^typ>\<open>string\<close>,
  whose characters are 8-bit: a character stands for the code unit of the same number, so
  the model covers the strings whose code units are below 256 (ASCII and Latin-1). Within
  that range the white space of \<^verbatim>\<open>\s\<close>, \<^verbatim>\<open>trim()\<close> and \<^verbatim>\<open>trimEnd()\<close> is
  TAB, LF, VT, FF, CR, SPACE and NBSP, the line terminators excluded by \<^verbatim>\<open>.\<close> are LF and
  CR, and the case folding of the \<^verbatim>\<open>i\<close> flag (without \<^verbatim>\<open>u\<close>) identifies exactly
  the ASCII letters that differ in case.
\<close>

definition is_space :: "char \<Rightarrow> bool" where
  "is_space c = (c \<in> set [CHR 0x09, CHR 0x0A, CHR 0x0B, CHR 0x0C, CHR 0x0D, CHR 0x20, CHR 0xA0])"

definition is_line_terminator :: "char \<Rightarrow> bool" where
  "is_line_terminator c = (c = CHR 0x0A \<or> c = CHR 0x0D)"

definition is_upper :: "char \<Rightarrow> bool" where
  "is_upper c = (65 \<le> (of_char c :: nat) \<and> (of_char c :: nat) \<le> 90)"

definition is_lower :: "char \<Rightarrow> bool" where
  "is_lower c = (97 \<le> (of_char c :: nat) \<and> (of_char c :: nat) \<le> 122)"

definition is_digit :: "char \<Rightarrow> bool" where
  "is_digit c = (48 \<le> (of_char c :: nat) \<and> (of_char c :: nat) \<le> 57)"

definition is_word_char :: "char \<Rightarrow> bool" where
  "is_word_char c = (is_upper c \<or> is_lower c \<or> is_digit c \<or> c = CHR ''_'')"

definition to_lower :: "char \<Rightarrow> char" where
  "to_lower c = (if is_upper c then char_of ((of_char c :: nat) + 32) else c)"

text \<open>\<^verbatim>\<open>String.prototype.startsWith\<close>, \<^verbatim>\<open>endsWith\<close>, \<^verbatim>\<open>trimEnd\<close> and \<^verbatim>\<open>trim\<close>.\<close>

definition startsWith :: "string \<Rightarrow> string \<Rightarrow> bool" where
  "startsWith s p = (take (length p) s = p)"




text \<open>JavaScript's \<^verbatim>\<open>a || b\<close> on strings: the empty string is falsy.\<close>

definition js_or :: "string \<Rightarrow> string \<Rightarrow> string" where
  "js_or a b = (if a \<noteq> [] then a else b)"

section \<open>Regular expressions\<close>

text \<open>
  The source states its command blocklist and its action markup as regular-expression
  literals. They are embedded as syntax trees, one constructor for each construct the
  literals use, and matched by a backtracking matcher that returns the matches of a
  pattern at a position in the priority order of ECMAScript (left alternative first,
  greedy quantifiers longest first, lazy quantifiers shortest first). The first element
  of the list is the match the JavaScript engine reports.
\<close>

datatype rx =
    Eps
  | Chr char
  | AnyOf "char list"
  | NoneOf "char list"
  | Space
  | Alpha
  | Dot
  | AnyChar
  | WordB
  | Eol
  | Seq rx rx
  | Alt rx rx
  | Opt rx
  | Star rx
  | Plus rx
  | LazyPlus rx
  | Group nat rx

text \<open>
  \<open>AnyOf cs\<close> is \<^verbatim>\<open>[cs]\<close>, \<open>NoneOf cs\<close> is \<^verbatim>\<open>[^cs]\<close>, \<open>Space\<close> is \<^verbatim>\<open>\s\<close>,
  \<open>Alpha\<close> is \<^verbatim>\<open>[a-zA-Z]\<close>, \<open>Dot\<close> is \<^verbatim>\<open>.\<close>, \<open>AnyChar\<close> is \<^verbatim>\<open>[\s\S]\<close>,
  \<open>WordB\<close> is \<^verbatim>\<open>\b\<close>, \<open>Eol\<close> is \<^verbatim>\<open>$\<close> (without the \<^verbatim>\<open>m\<close> flag),
  \<open>Opt r\<close> is \<^verbatim>\<open>r?\<close>, \<open>Star r\<close> is \<^verbatim>\<open>r*\<close>, \<open>Plus r\<close> is \<^verbatim>\<open>r+\<close>,
  \<open>LazyPlus r\<close> is \<^verbatim>\<open>r+?\<close> and \<open>Group n r\<close> is the \<open>n\<close>-th capturing group.
\<close>

record mstate =
  prev :: "char option"
  rest :: string
  caps :: "nat \<rightharpoonup> string"

definition chr_eq :: "bool \<Rightarrow> char \<Rightarrow> char \<Rightarrow> bool" where
  "chr_eq ic c x = (if ic then to_lower c = to_lower x else c = x)"

definition advance :: "mstate \<Rightarrow> mstate" where
  "advance st = st\<lparr>prev := Some (hd (rest st)), rest := tl (rest st)\<rparr>"

definition one_char :: "(char \<Rightarrow> bool) \<Rightarrow> mstate \<Rightarrow> mstate list" where
  "one_char P st = (case rest st of [] \<Rightarrow> [] | x # xs \<Rightarrow> if P x then [advance st] else [])"

definition at_word_boundary :: "mstate \<Rightarrow> bool" where
  "at_word_boundary st =
     ((case prev st of None \<Rightarrow> False | Some c \<Rightarrow> is_word_char c)
      \<noteq> (case rest st of [] \<Rightarrow> False | x # xs \<Rightarrow> is_word_char x))"

text \<open>
  Repetition. An iteration that consumes nothing is rejected, as in ECMAScript's
  RepeatMatcher, so every iteration shortens the rest of the input and the length of the
  rest bounds the number of iterations.
\<close>

primrec star_greedy :: "(mstate \<Rightarrow> mstate list) \<Rightarrow> nat \<Rightarrow> mstate \<Rightarrow> mstate list" where
  "star_greedy f 0 st = [st]"
| "star_greedy f (Suc n) st =
     concat (map (\<lambda>st'. if length (rest st') < length (rest st) then star_greedy f n st' else [])
                 (f st)) @ [st]"

primrec star_lazy :: "(mstate \<Rightarrow> mstate list) \<Rightarrow> nat \<Rightarrow> mstate \<Rightarrow> mstate list" where
  "star_lazy f 0 st = [st]"
| "star_lazy f (Suc n) st =
     st # concat (map (\<lambda>st'. if length (rest st') < length (rest st) then star_lazy f n st' else [])
                      (f st))"

fun rmatch :: "bool \<Rightarrow> rx \<Rightarrow> mstate \<Rightarrow> mstate list" where
  "rmatch ic Eps st = [st]"
| "rmatch ic (Chr c) st = one_char (chr_eq ic c) st"
| "rmatch ic (AnyOf cs) st = one_char (\<lambda>x. list_ex (\<lambda>c. chr_eq ic c x) cs) st"
| "rmatch ic (NoneOf cs) st = one_char (\<lambda>x. \<not> list_ex (\<lambda>c. chr_eq ic c x) cs) st"
| "rmatch ic Space st = one_char is_space st"
| "rmatch ic Alpha st = one_char (\<lambda>x. is_upper x \<or> is_lower x) st"
| "rmatch ic Dot st = one_char (\<lambda>x. \<not> is_line_terminator x) st"
| "rmatch ic AnyChar st = one_char (\<lambda>x. True) st"
| "rmatch ic WordB st = (if at_word_boundary st then [st] else [])"
| "rmatch ic Eol st = (if rest st = [] then [st] else [])"
| "rmatch ic (Seq a b) st = concat (map (rmatch ic b) (rmatch ic a st))"
| "rmatch ic (Alt a b) st = rmatch ic a st @ rmatch ic b st"
| "rmatch ic (Opt a) st = rmatch ic a st @ [st]"
| "rmatch ic (Star a) st = star_greedy (rmatch ic a) (length (rest st)) st"
| "rmatch ic (Plus a) st =
     concat (map (\<lambda>st'. star_greedy (rmatch ic a) (length (rest st')) st') (rmatch ic a st))"
| "rmatch ic (LazyPlus a) st =
     concat (map (\<lambda>st'. star_lazy (rmatch ic a) (length (rest st')) st') (rmatch ic a st))"
| "rmatch ic (Group n a) st =
     map (\<lambda>st'. st'\<lparr>caps := (caps st')(n \<mapsto> take (length (rest st) - length (rest st')) (rest st))\<rparr>)
         (rmatch ic a st)"

text \<open>
  \<open>rsearch\<close> is one run of \<^verbatim>\<open>RegExp.prototype.exec\<close> from a position: the leftmost
  position at which the pattern matches, with the text skipped before it and the state
  at the end of the match.
\<close>

fun rsearch :: "bool \<Rightarrow> rx \<Rightarrow> char option \<Rightarrow> string \<Rightarrow> (string \<times> mstate) option" where
  "rsearch ic r p [] =
     (case rmatch ic r \<lparr>prev = p, rest = [], caps = Map.empty\<rparr> of
        [] \<Rightarrow> None | m # ms \<Rightarrow> Some ([], m))"
| "rsearch ic r p (x # xs) =
     (case rmatch ic r \<lparr>prev = p, rest = x # xs, caps = Map.empty\<rparr> of
        [] \<Rightarrow> map_option (\<lambda>(skipped, m). (x # skipped, m)) (rsearch ic r (Some x) xs)
      | m # ms \<Rightarrow> Some ([], m))"

text \<open>\<^verbatim>\<open>RegExp.prototype.test\<close> of a pattern without the \<^verbatim>\<open>g\<close> flag.\<close>

definition rtest :: "bool \<Rightarrow> rx \<Rightarrow> string \<Rightarrow> bool" where
  "rtest ic r s = (rsearch ic r None s \<noteq> None)"

text \<open>A literal run of characters, and a choice between literal words.\<close>

primrec lit :: "string \<Rightarrow> rx" where
  "lit [] = Eps"
| "lit (c # cs) = Seq (Chr c) (lit cs)"

primrec seqs :: "rx list \<Rightarrow> rx" where
  "seqs [] = Eps"
| "seqs (r # rs) = Seq r (seqs rs)"

primrec alts :: "rx \<Rightarrow> rx list \<Rightarrow> rx" where
  "alts r [] = r"
| "alts r (r' # rs) = Alt r (alts r' rs)"

section \<open>The safety gate (server.mjs)\<close>

text \<open>
  \<^verbatim>\<open>BLOCKED_COMMANDS\<close>, in the order of the source. Each entry carries its \<^verbatim>\<open>i\<close> flag.
  In the eighth literal, \<^verbatim>\<open>/:(){ :\|:& };:/\<close>, the parentheses are an empty group and
  the braces are literal characters.
\<close>

definition BLOCKED_COMMANDS :: "(bool \<times> rx) list" where
  "BLOCKED_COMMANDS = [
    (True, seqs [lit ''rm'', Plus Space,
                 Group 1 (alts (seqs [Chr CHR ''-'', Star Alpha, Chr CHR ''f''])
                               [seqs [Chr CHR ''-'', Star Alpha, Chr CHR ''r''],
                                lit ''--force'', lit ''--recursive'']),
                 Star Dot, Chr CHR ''/'']),
    (True, seqs [lit ''rm'', Plus Space, lit ''-rf'', Space]),
    (True, lit ''mkfs''),
    (True, seqs [lit ''dd'', Plus Space, lit ''if='']),
    (True, seqs [lit ''chmod'', Plus Space, Opt (Group 1 (seqs [lit ''-R'', Plus Space])),
                 lit ''777'', Plus Space, Chr CHR ''/'']),
    (True, seqs [lit ''chown'', Plus Space, lit ''-R'', Plus Space, Star Dot, Plus Space,
                 Chr CHR ''/'']),
    (True, seqs [Chr CHR ''>'', Star Space, lit ''/dev/sd'']),
    (False, seqs [Chr CHR '':'', Group 1 Eps, lit ''{ :|:& };:'']),
    (True, lit ''shutdown''),
    (True, lit ''reboot''),
    (True, seqs [lit ''init'', Plus Space, AnyOf ''06'']),
    (True, seqs [lit ''systemctl'', Plus Space,
                 Group 1 (alts (lit ''poweroff'') [lit ''halt'', lit ''reboot''])]),
    (True, lit ''wipefs''),
    (True, lit ''fdisk''),
    (True, lit ''parted''),
    (True, seqs [WordB, lit ''format'', WordB, Star Dot, Chr CHR ''/'',
                 Group 1 (alts (lit ''dev'') [lit ''disk''])]),
    (True, seqs [lit ''curl'', Star Dot, Chr CHR ''|'', Star Space,
                 Group 1 (alts (lit ''bash'') [lit ''sh'', lit ''zsh''])]),
    (True, seqs [lit ''wget'', Star Dot, Chr CHR ''|'', Star Space,
                 Group 1 (alts (lit ''bash'') [lit ''sh'', lit ''zsh''])]),
    (True, seqs [lit ''python'', Star Dot, lit ''-c'', Star Dot, lit ''import'', Plus Space,
                 lit ''os'', Star Dot, lit ''system'']),
    (True, seqs [lit ''iptables'', Plus Space, lit ''-F'']),
    (True, seqs [lit ''ufw'', Plus Space, lit ''disable'']),
    (True, seqs [lit ''passwd'', Plus Space, lit ''root'']),
    (True, lit ''userdel''),
    (True, lit ''groupdel''),
    (True, seqs [lit ''mv'', Plus Space, lit ''/etc'']),
    (True, seqs [lit ''rm'', Plus Space, lit ''/etc'']),
    (True, seqs [lit ''truncate'', Star Dot, lit ''/etc'']),
    (True, seqs [lit ''echo'', Plus Space, Star Dot, Chr CHR ''>'', Star Space, lit ''/etc/'',
                 Group 1 (alts (lit ''passwd'') [lit ''shadow'', lit ''sudoers'', lit ''fstab''])])
  ]"

definition isCommandBlocked :: "string \<Rightarrow> bool" where
  "isCommandBlocked cmd = list_ex (\<lambda>(ic, pattern). rtest ic pattern cmd) BLOCKED_COMMANDS"

text \<open>The specification's \<^verbatim>\<open>isCommandAllowed\<close> is the negation of the source's predicate.\<close>

definition isCommandAllowed :: "string \<Rightarrow> bool" where
  "isCommandAllowed cmd = (\<not> isCommandBlocked cmd)"

definition DEFAULT_READ_PATHS :: "string list" where
  "DEFAULT_READ_PATHS =
     [''/etc/'', ''/var/log/'', ''/var/lib/'', ''/tmp/'',
      ''/home/'', ''/opt/'', ''/usr/local/etc/'',
      ''/proc/cpuinfo'', ''/proc/meminfo'', ''/proc/loadavg'',
      ''/proc/version'', ''/proc/uptime'', ''/proc/net/'']"

definition DEFAULT_WRITE_PATHS :: "string list" where
  "DEFAULT_WRITE_PATHS = [''/tmp/'']"

text \<open>
  The configuration object, as far as the gate reads it. A field that the configuration
  file leaves out is \<open>None\<close>; an empty list is a value (an empty array is truthy).
\<close>

record config =
  openclaw_dir :: "string option"
  read_paths :: "string list option"
  write_paths :: "string list option"

text \<open>\<^verbatim>\<open>DEFAULTS\<close> of the setup wizard.\<close>

definition DEFAULTS :: config where
  "DEFAULTS = \<lparr>
     openclaw_dir = Some ''/opt/openclaw'',
     read_paths = Some [''/etc/'', ''/var/log/'', ''/var/lib/'', ''/tmp/'', ''/home/'', ''/opt/'',
                        ''/usr/local/etc/'', ''/proc/cpuinfo'', ''/proc/meminfo'', ''/proc/loadavg'',
                        ''/proc/version'', ''/proc/uptime'', ''/proc/net/''],
     write_paths = Some [''/tmp/''] \<rparr>"

definition OPENCLAW_DIR :: "config \<Rightarrow> string" where
  "OPENCLAW_DIR cfg =
     (case openclaw_dir cfg of None \<Rightarrow> ''/opt/openclaw''
      | Some d \<Rightarrow> if d = [] then ''/opt/openclaw'' else d)"

definition SAFE_READ_PATHS :: "config \<Rightarrow> string list" where
  "SAFE_READ_PATHS cfg =
     (case read_paths cfg of Some ps \<Rightarrow> ps | None \<Rightarrow> DEFAULT_READ_PATHS @ [OPENCLAW_DIR cfg])"

definition SAFE_WRITE_PATHS :: "config \<Rightarrow> string \<Rightarrow> string list" where
  "SAFE_WRITE_PATHS cfg cwd =
     (case write_paths cfg of Some ps \<Rightarrow> ps
      | None \<Rightarrow> DEFAULT_WRITE_PATHS @ [cwd, OPENCLAW_DIR cfg])"

definition isPathReadable :: "config \<Rightarrow> string \<Rightarrow> bool" where
  "isPathReadable cfg filepath = list_ex (\<lambda>p. startsWith filepath p) (SAFE_READ_PATHS cfg)"

definition isPathWritable :: "config \<Rightarrow> string \<Rightarrow> string \<Rightarrow> bool" where
  "isPathWritable cfg cwd filepath =
     list_ex (\<lambda>p. startsWith filepath p) (SAFE_WRITE_PATHS cfg cwd)"

section \<open>Paths (Node's \<^verbatim>\<open>path\<close> module, POSIX flavour)\<close>

text \<open>
  The executor calls \<^verbatim>\<open>path.join\<close> and \<^verbatim>\<open>path.dirname\<close>. They belong to the platform,
  not to the repository; they are modelled after Node's POSIX implementation: \<open>join\<close>
  concatenates its non-empty arguments with a slash and normalises the result, and
  normalisation drops empty and \<^verbatim>\<open>.\<close> segments and resolves \<^verbatim>\<open>..\<close> segments.
\<close>

fun split_on :: "char \<Rightarrow> string \<Rightarrow> string list" where
  "split_on c [] = [[]]"
| "split_on c (x # xs) =
     (if x = c then [] # split_on c xs
      else (case split_on c xs of [] \<Rightarrow> [[x]] | s # ss \<Rightarrow> (x # s) # ss))"

fun join_with :: "string \<Rightarrow> string list \<Rightarrow> string" where
  "join_with sep [] = []"
| "join_with sep [s] = s"
| "join_with sep (s # t # ss) = s @ sep @ join_with sep (t # ss)"

fun normalizeString :: "bool \<Rightarrow> string list \<Rightarrow> string list \<Rightarrow> string list" where
  "normalizeString allowAboveRoot [] res = res"
| "normalizeString allowAboveRoot (seg # segs) res =
     normalizeString allowAboveRoot segs
       (if seg = [] \<or> seg = ''.'' then res
        else if seg = ''..'' then
          (if res \<noteq> [] \<and> last res \<noteq> ''..'' then butlast res
           else if allowAboveRoot then res @ [''..''] else res)
        else res @ [seg])"

definition normalize :: "string \<Rightarrow> string" where
  "normalize path =
     (if path = [] then ''.''
      else
        let isAbsolute = (hd path = CHR ''/'');
            trailingSeparator = (last path = CHR ''/'');
            body = join_with ''/'' (normalizeString (\<not> isAbsolute) (split_on CHR ''/'' path) [])
        in if body = [] then (if isAbsolute then ''/'' else if trailingSeparator then ''./'' else ''.'')
           else (if isAbsolute then ''/'' else []) @ body @ (if trailingSeparator then ''/'' else []))"

definition path_join :: "string list \<Rightarrow> string" where
  "path_join args =
     (let parts = filter (\<lambda>a. a \<noteq> []) args
      in if parts = [] then ''.'' else normalize (join_with ''/'' parts))"

definition dirname :: "string \<Rightarrow> string" where
  "dirname path =
     (if path = [] then ''.''
      else
        let hasRoot = (hd path = CHR ''/'');
            upto = dropWhile (\<lambda>c. c \<noteq> CHR ''/'') (dropWhile (\<lambda>c. c = CHR ''/'') (rev (tl path)));
            endIdx = length upto
        in if endIdx = 0 then (if hasRoot then ''/'' else ''.'')
           else if hasRoot \<and> endIdx = 1 then ''//''
           else take endIdx path)"

section \<open>The executor (terminal.mjs \<^verbatim>\<open>executeAction\<close>, server.mjs \<^verbatim>\<open>/api/execute\<close>)\<close>

text \<open>
  The world the executor acts on: the file system, as a flat store from path to node (the
  directory hierarchy is not tracked), and the log of the external processes spawned
  through \<^verbatim>\<open>execSync\<close>.
\<close>

datatype node = File string | Dir

record spawn =
  command :: string
  spawn_cwd :: "string option"
  timeout_ms :: nat
  maxBuffer :: nat

record world =
  fs :: "string \<rightharpoonup> node"
  spawned :: "spawn list"

text \<open>
  What \<^verbatim>\<open>execSync\<close> does with a command is the environment's: it returns the output of a
  process that exits with status zero, and throws, for a non-zero exit status, a timeout
  or an overflow of the output buffer, an error that carries \<^verbatim>\<open>stderr\<close>, \<^verbatim>\<open>stdout\<close> and
  \<^verbatim>\<open>message\<close>. The effect of the external process on the file system is not modelled.
\<close>

datatype exec_result = Exited string | ExecError string string string

datatype io_error = EISDIR | ENOENT | ERR_INVALID_ARG_TYPE

record env =
  cfg :: config
  process_cwd :: string
  BACKUP_DIR :: string
  now_iso :: string
  execSync_result :: "string \<Rightarrow> exec_result"
  err_message :: "io_error \<Rightarrow> string"

record action_result =
  success :: bool
  result :: string

definition existsSync :: "world \<Rightarrow> string \<Rightarrow> bool" where
  "existsSync w p = (fs w p \<noteq> None)"

definition mkdirSync :: "string \<Rightarrow> world \<Rightarrow> world" where
  "mkdirSync p w = w\<lparr>fs := (fs w)(p \<mapsto> Dir)\<rparr>"

text \<open>
  The file operations throw where the node kinds of the store forbid them; other failures
  of the operating system (permissions, a full disk) are outside the model. \<open>Inl\<close> is the
  thrown error.
\<close>

definition copyFileSync :: "string \<Rightarrow> string \<Rightarrow> world \<Rightarrow> io_error + world" where
  "copyFileSync src dest w =
     (case fs w src of
        None \<Rightarrow> Inl ENOENT
      | Some Dir \<Rightarrow> Inl EISDIR
      | Some (File bytes) \<Rightarrow> Inr (w\<lparr>fs := (fs w)(dest \<mapsto> File bytes)\<rparr>))"

definition writeFileSync :: "string \<Rightarrow> string option \<Rightarrow> world \<Rightarrow> io_error + world" where
  "writeFileSync p data w =
     (case data of
        None \<Rightarrow> Inl ERR_INVALID_ARG_TYPE
      | Some text \<Rightarrow>
          (case fs w p of
             Some Dir \<Rightarrow> Inl EISDIR
           | _ \<Rightarrow> Inr (w\<lparr>fs := (fs w)(p \<mapsto> File text)\<rparr>)))"

definition readFileSync :: "string \<Rightarrow> world \<Rightarrow> io_error + string" where
  "readFileSync p w =
     (case fs w p of
        None \<Rightarrow> Inl ENOENT
      | Some Dir \<Rightarrow> Inl EISDIR
      | Some (File bytes) \<Rightarrow> Inr bytes)"

definition execSync :: "env \<Rightarrow> spawn \<Rightarrow> world \<Rightarrow> exec_result \<times> world" where
  "execSync e sp w = (execSync_result e (command sp), w\<lparr>spawned := spawned w @ [sp]\<rparr>)"

text \<open>\<^verbatim>\<open>backupFile\<close> of server.mjs; \<open>Inr None\<close> is the \<^verbatim>\<open>null\<close> it returns.\<close>

definition backup_timestamp :: "string \<Rightarrow> string" where
  "backup_timestamp isoTime =
     map (\<lambda>c. if c = CHR '':'' \<or> c = CHR ''.'' then CHR ''-'' else c) isoTime"

definition backup_name :: "string \<Rightarrow> string \<Rightarrow> string" where
  "backup_name filepath isoTime =
     concat (map (\<lambda>c. if c = CHR ''/'' then ''__'' else [c]) filepath)
       @ ''.'' @ backup_timestamp isoTime @ ''.bak''"

definition backup_path :: "env \<Rightarrow> string \<Rightarrow> string" where
  "backup_path e filepath = path_join [BACKUP_DIR e, backup_name filepath (now_iso e)]"

definition backupFile :: "env \<Rightarrow> string \<Rightarrow> world \<Rightarrow> (io_error + string option) \<times> world" where
  "backupFile e filepath w =
     (if \<not> existsSync w filepath then (Inr None, w)
      else
        let w1 = (if \<not> existsSync w (BACKUP_DIR e) then mkdirSync (BACKUP_DIR e) w else w);
            backupPath = backup_path e filepath
        in (case copyFileSync filepath backupPath w1 of
              Inl err \<Rightarrow> (Inl err, w1)
            | Inr w2 \<Rightarrow> (Inr (Some backupPath), w2)))"

text \<open>The result objects of the executor.\<close>

definition failure :: "string \<Rightarrow> action_result" where
  "failure msg = \<lparr>success = False, result = msg\<rparr>"

definition succeeded :: "string \<Rightarrow> action_result" where
  "succeeded msg = \<lparr>success = True, result = msg\<rparr>"

definition caught :: "env \<Rightarrow> io_error \<Rightarrow> action_result" where
  "caught e err = failure (''Error: '' @ err_message e err)"

text \<open>
  The first statement of both executors: a target of a file action that is non-empty and
  does not start with a slash is joined to the working directory.
\<close>

definition resolve_target :: "env \<Rightarrow> string \<Rightarrow> string \<Rightarrow> string" where
  "resolve_target e type target =
     (if type \<noteq> ''RUN_CMD'' \<and> target \<noteq> [] \<and> \<not> startsWith target ''/''
      then path_join [process_cwd e, target] else target)"

definition read_file_case :: "env \<Rightarrow> string \<Rightarrow> world \<Rightarrow> action_result \<times> world" where
  "read_file_case e target w =
     (if \<not> isPathReadable (cfg e) target
      then (failure (''Access denied: \"'' @ target @ ''\" is outside allowed read paths.''), w)
      else if \<not> existsSync w target
      then (failure (''File not found: '' @ target), w)
      else (case readFileSync target w of
              Inl err \<Rightarrow> (caught e err, w)
            | Inr data \<Rightarrow> (succeeded data, w)))"

definition exec_outcome :: "exec_result \<Rightarrow> action_result" where
  "exec_outcome r =
     (case r of
        Exited output \<Rightarrow> succeeded (js_or output ''(no output)'')
      | ExecError stderr stdout message \<Rightarrow> failure (js_or stderr (js_or stdout message)))"

definition run_cmd_case :: "string \<Rightarrow> env \<Rightarrow> string \<Rightarrow> world \<Rightarrow> action_result \<times> world" where
  "run_cmd_case refusal e target w =
     (if isCommandBlocked target
      then (failure (''Blocked: \"'' @ target @ ''\" matches a dangerous command pattern.'' @ refusal), w)
      else
        (case execSync e \<lparr>command = target, spawn_cwd = None, timeout_ms = 30000,
                          maxBuffer = 1024 * 1024\<rparr> w of
           (r, w') \<Rightarrow> (exec_outcome r, w')))"

text \<open>
  The interpreter is chosen by the lowered text after the last dot of the target. The
  lowered text is only compared with three ASCII words, so lowering the ASCII letters
  decides the choice.
\<close>

definition script_shell :: "string \<Rightarrow> string" where
  "script_shell target =
     (let ext = map to_lower (last (split_on CHR ''.'' target))
      in if ext \<in> set [''bat'', ''cmd'', ''ps1'']
         then (if ext = ''ps1'' then ''powershell -ExecutionPolicy Bypass -File \"'' @ target @ ''\"''
               else ''cmd /c \"'' @ target @ ''\"'')
         else ''bash \"'' @ target @ ''\"'')"

definition script_fullCmd :: "string \<Rightarrow> string option \<Rightarrow> string" where
  "script_fullCmd target content =
     (case content of
        None \<Rightarrow> script_shell target
      | Some args \<Rightarrow> if args = [] then script_shell target else script_shell target @ '' '' @ args)"

definition run_script_case ::
  "env \<Rightarrow> string \<Rightarrow> string option \<Rightarrow> world \<Rightarrow> action_result \<times> world" where
  "run_script_case e target content w =
     (if \<not> isPathReadable (cfg e) target
      then (failure (''Access denied: \"'' @ target @ ''\" is outside allowed read paths.''), w)
      else if \<not> existsSync w target
      then (failure (''Script not found: '' @ target), w)
      else
        let fullCmd = script_fullCmd target content
        in if isCommandBlocked fullCmd
           then (failure ''Blocked: script execution matches a dangerous command pattern.'', w)
           else
             (case execSync e \<lparr>command = fullCmd, spawn_cwd = Some (dirname target),
                               timeout_ms = 60000, maxBuffer = 1024 * 1024 * 2\<rparr> w of
                (r, w') \<Rightarrow> (exec_outcome r, w')))"

definition write_file_case ::
  "env \<Rightarrow> string \<Rightarrow> string option \<Rightarrow> world \<Rightarrow> action_result \<times> world" where
  "write_file_case e target content w =
     (if \<not> isPathWritable (cfg e) (process_cwd e) target
      then (failure (''Access denied: \"'' @ target @ ''\" is outside allowed write paths.''), w)
      else
        let dir = dirname target;
            w1 = (if \<not> existsSync w dir then mkdirSync dir w else w)
        in (case backupFile e target w1 of
              (Inl err, w2) \<Rightarrow> (caught e err, w2)
            | (Inr backup, w2) \<Rightarrow>
                (case writeFileSync target content w2 of
                   Inl err \<Rightarrow> (caught e err, w2)
                 | Inr w3 \<Rightarrow>
                     (succeeded
                        (case backup of
                           Some b \<Rightarrow> if b \<noteq> [] then ''File written. Backup saved to: '' @ b
                                     else ''File created at: '' @ target
                         | None \<Rightarrow> ''File created at: '' @ target), w3))))"

definition execute_switch ::
  "string \<Rightarrow> env \<Rightarrow> string \<Rightarrow> string \<Rightarrow> string option \<Rightarrow> world \<Rightarrow> action_result \<times> world" where
  "execute_switch refusal e type target content w =
     (if type = ''READ_FILE'' then read_file_case e target w
      else if type = ''RUN_CMD'' then run_cmd_case refusal e target w
      else if type = ''RUN_SCRIPT'' then run_script_case e target content w
      else if type = ''WRITE_FILE'' then write_file_case e target content w
      else (failure (''Unknown action type: '' @ type), w))"

text \<open>
  \<^verbatim>\<open>executeAction\<close> of terminal.mjs and the handler of \<^verbatim>\<open>/api/execute\<close> of server.mjs.
  The two texts are the same statement for statement; the server's refusal of a blocked
  \<^verbatim>\<open>RUN_CMD\<close> ends with one more sentence. The context that terminal.mjs receives
  carries the gate functions and \<^verbatim>\<open>backupFile\<close> of server.mjs.
\<close>

definition executeAction ::
  "env \<Rightarrow> string \<Rightarrow> string \<Rightarrow> string option \<Rightarrow> world \<Rightarrow> action_result \<times> world" where
  "executeAction e type target content w =
     execute_switch [] e type (resolve_target e type target) content w"

definition api_execute ::
  "env \<Rightarrow> string \<Rightarrow> string \<Rightarrow> string option \<Rightarrow> world \<Rightarrow> action_result \<times> world" where
  "api_execute e type target content w =
     execute_switch '' DoctorClaw refuses to run it.'' e type (resolve_target e type target) content w"



text \<open>An environment and a world for the worked examples.\<close>

definition example_env :: env where
  "example_env = \<lparr>
     cfg = DEFAULTS,
     process_cwd = ''/tmp/work'',
     BACKUP_DIR = ''/srv/doctorclaw/.doctorclaw-backups'',
     now_iso = ''2026-02-06T10:11:12.123Z'',
     execSync_result = (\<lambda>cmd. if cmd = ''ls /tmp'' then Exited ''notes.txt''
                               else ExecError ''sh: 1: not found'' [] ''Command failed''),
     err_message = (\<lambda>err. ''operation failed'') \<rparr>"

definition example_world :: world where
  "example_world = \<lparr>
     fs = [''/'' \<mapsto> Dir, ''.'' \<mapsto> Dir, ''/tmp'' \<mapsto> Dir,
           ''/tmp/notes.txt'' \<mapsto> File ''old text'',
           ''/tmp/fix.sh'' \<mapsto> File ''echo hi''],
     spawned = [] \<rparr>"

section \<open>The action markup (terminal.mjs)\<close>













record action =
  act_type :: string
  act_target :: string
  act_content :: "string option"





section \<open>The streaming display (terminal.mjs \<^verbatim>\<open>streamChat\<close>)\<close>












section \<open>The action registry and the approval step\<close>

text \<open>
  Modelled from the spec: the action registry and the approval step of the session
  coordinator. The sources hold the executor and the terminal loop, which keeps no
  status for an action; the status machine itself (the browser client, named
  \<^verbatim>\<open>public/index.html\<close> by the repository's notes on fixes) is not among them. The
  definitions follow sections 3, 4.4, 4.5 and 7 of the specification: the statuses and
  their legal transitions, \<^verbatim>\<open>approve\<close>, \<^verbatim>\<open>complete\<close>, \<^verbatim>\<open>fail-and-retry\<close> and \<^verbatim>\<open>deny\<close>,
  and the approval step, which approves, calls the executor of the sources, completes on
  success or on a policy denial, and reverts to \<open>Pending\<close> on an execution error.
\<close>

datatype status = Pending | Running | Succeeded | Failed | Denied

record registered =
  reg_kind :: string
  reg_target :: string
  reg_content :: "string option"
  reg_status :: status
  reg_result :: "string option"

type_synonym registry = "nat \<rightharpoonup> registered"

definition approve :: "nat \<Rightarrow> registry \<Rightarrow> registry option" where
  "approve i reg =
     (case reg i of
        None \<Rightarrow> None
      | Some a \<Rightarrow> if reg_status a = Pending then Some (reg(i \<mapsto> a\<lparr>reg_status := Running\<rparr>))
                  else None)"

definition complete :: "nat \<Rightarrow> bool \<Rightarrow> string \<Rightarrow> registry \<Rightarrow> registry" where
  "complete i ok text reg =
     (case reg i of
        None \<Rightarrow> reg
      | Some a \<Rightarrow>
          if reg_status a = Running
          then reg(i \<mapsto> a\<lparr>reg_status := (if ok then Succeeded else Failed), reg_result := Some text\<rparr>)
          else reg)"

definition fail_and_retry :: "nat \<Rightarrow> string \<Rightarrow> registry \<Rightarrow> registry" where
  "fail_and_retry i text reg =
     (case reg i of
        None \<Rightarrow> reg
      | Some a \<Rightarrow>
          if reg_status a = Running
          then reg(i \<mapsto> a\<lparr>reg_status := Pending, reg_result := Some text\<rparr>)
          else reg)"

definition deny :: "nat \<Rightarrow> registry \<Rightarrow> registry" where
  "deny i reg =
     (case reg i of
        None \<Rightarrow> reg
      | Some a \<Rightarrow> if reg_status a = Pending then reg(i \<mapsto> a\<lparr>reg_status := Denied\<rparr>) else reg)"

text \<open>
  The failure classes of section 7: a policy denial is a refusal of the safety gate; any
  other failure of the executor is an execution error.
\<close>

definition policy_denied :: "env \<Rightarrow> registered \<Rightarrow> bool" where
  "policy_denied e a =
     (let t = resolve_target e (reg_kind a) (reg_target a)
      in if reg_kind a = ''RUN_CMD'' then isCommandBlocked t
         else if reg_kind a = ''READ_FILE'' then \<not> isPathReadable (cfg e) t
         else if reg_kind a = ''RUN_SCRIPT''
         then \<not> isPathReadable (cfg e) t \<or> isCommandBlocked (script_fullCmd t (reg_content a))
         else if reg_kind a = ''WRITE_FILE'' then \<not> isPathWritable (cfg e) (process_cwd e) t
         else False)"

definition on_approval :: "env \<Rightarrow> nat \<Rightarrow> registry \<times> world \<Rightarrow> registry \<times> world" where
  "on_approval e i s =
     (case approve i (fst s) of
        None \<Rightarrow> s
      | Some running \<Rightarrow>
          (case running i of
             None \<Rightarrow> s
           | Some a \<Rightarrow>
               (case executeAction e (reg_kind a) (reg_target a) (reg_content a) (snd s) of
                  (r, w') \<Rightarrow>
                    if success r then (complete i True (result r) running, w')
                    else if policy_denied e a then (complete i False (result r) running, w')
                    else (fail_and_retry i (result r) running, w'))))"

definition example_registry :: registry where
  "example_registry =
     [0 \<mapsto> \<lparr>reg_kind = ''RUN_CMD'', reg_target = ''cat /nonexistent'', reg_content = None,
             reg_status = Pending, reg_result = None\<rparr>]"

section \<open>Theorems about the safety gate\<close>

text \<open>
  Claim C6. The command gate rejects the exact string \<^verbatim>\<open>rm -rf /\<close> (it is blocked, hence
  not allowed) and accepts the exact string \<^verbatim>\<open>ls -la /tmp\<close> (it is not blocked, hence
  allowed).
\<close>

theorem C6_command_gate_examples:
  "isCommandBlocked ''rm -rf /'' \<and> isCommandAllowed ''rm -rf /'' = False \<and>
   isCommandBlocked ''ls -la /tmp'' = False \<and> isCommandAllowed ''ls -la /tmp''"
  unfolding isCommandAllowed_def by code_simp

text \<open>
  Claim C7. With the default configuration, whose read and write prefix lists are the
  default lists, \<^verbatim>\<open>/etc/shadow\<close> is readable and not writable, and \<^verbatim>\<open>/tmp/x\<close> is both
  readable and writable. The working directory does not enter: the configuration gives
  the write list.
\<close>

theorem C7_default_path_gate:
  "isPathReadable DEFAULTS ''/etc/shadow'' \<and>
   isPathWritable DEFAULTS cwd ''/etc/shadow'' = False \<and>
   isPathReadable DEFAULTS ''/tmp/x'' \<and>
   isPathWritable DEFAULTS cwd ''/tmp/x'' \<and>
   SAFE_READ_PATHS DEFAULTS = DEFAULT_READ_PATHS \<and>
   SAFE_WRITE_PATHS DEFAULTS cwd = DEFAULT_WRITE_PATHS"
  by (simp add: isPathReadable_def isPathWritable_def SAFE_READ_PATHS_def SAFE_WRITE_PATHS_def
      DEFAULTS_def DEFAULT_READ_PATHS_def DEFAULT_WRITE_PATHS_def startsWith_def)

section \<open>Lemmas about paths\<close>

lemma normalize_absolute:
  "path \<noteq> [] \<Longrightarrow> hd path = CHR ''/'' \<Longrightarrow> startsWith (normalize path) ''/''"
  by (simp add: normalize_def Let_def startsWith_def)

lemma path_join_absolute:
  assumes "startsWith c ''/''"
  shows "startsWith (path_join [c, t]) ''/''"
proof -
  from assms obtain c' where c: "c = CHR ''/'' # c'"
    by (cases c) (auto simp: startsWith_def)
  show ?thesis
    by (cases "t = []") (simp_all add: path_join_def c normalize_absolute)
qed
















section \<open>Theorems about the executor\<close>

lemma switch_run_cmd: "execute_switch m e ''RUN_CMD'' cmd content w = run_cmd_case m e cmd w"
  by (simp add: execute_switch_def)

lemma switch_run_script:
  "execute_switch m e ''RUN_SCRIPT'' t content w = run_script_case e t content w"
  by (simp add: execute_switch_def)

lemma switch_read_file:
  "execute_switch m e ''READ_FILE'' t content w = read_file_case e t w"
  by (simp add: execute_switch_def)

lemma resolve_run_cmd: "resolve_target e ''RUN_CMD'' cmd = cmd"
  by (simp add: resolve_target_def)

lemma resolve_absolute: "resolve_target e type (CHR ''/'' # p) = CHR ''/'' # p"
  by (simp add: resolve_target_def startsWith_def)

lemma run_cmd_cwd: "run_cmd_case m (e\<lparr>process_cwd := d\<rparr>) cmd w = run_cmd_case m e cmd w"
  by (simp add: run_cmd_case_def execSync_def)











text \<open>
  Claim C9. A \<^verbatim>\<open>RUN_CMD\<close> that is not blocked is spawned once, with the 30 second timeout
  and the 1 MB output cap; when \<^verbatim>\<open>execSync\<close> throws (a non-zero exit status or the
  timeout), the executor returns the failure result that carries \<^verbatim>\<open>stderr\<close>, or
  \<^verbatim>\<open>stdout\<close> when that is empty, or the error message when both are. The executor is a
  total function to result objects: nothing is thrown to the caller. Both executors.
\<close>

theorem C9_run_cmd_failure_is_returned:
  assumes "\<not> isCommandBlocked target"
    and "execSync_result e target = ExecError stderr stdout message"
  shows "fst (executeAction e ''RUN_CMD'' target content w)
           = \<lparr>success = False, result = js_or stderr (js_or stdout message)\<rparr>
       \<and> fst (api_execute e ''RUN_CMD'' target content w)
           = \<lparr>success = False, result = js_or stderr (js_or stdout message)\<rparr>
       \<and> spawned (snd (executeAction e ''RUN_CMD'' target content w))
           = spawned w @ [\<lparr>command = target, spawn_cwd = None, timeout_ms = 30000,
                           maxBuffer = 1048576\<rparr>]
       \<and> spawned (snd (api_execute e ''RUN_CMD'' target content w))
           = spawned w @ [\<lparr>command = target, spawn_cwd = None, timeout_ms = 30000,
                           maxBuffer = 1048576\<rparr>]"
  using assms
  by (simp add: executeAction_def api_execute_def resolve_run_cmd switch_run_cmd
      run_cmd_case_def execSync_def exec_outcome_def failure_def)

theorem C9_run_cmd_failure_witness:
  "\<not> isCommandBlocked ''cat /nonexistent''
   \<and> execSync_result example_env ''cat /nonexistent''
       = ExecError ''sh: 1: not found'' [] ''Command failed''
   \<and> fst (executeAction example_env ''RUN_CMD'' ''cat /nonexistent'' None example_world)
       = \<lparr>success = False, result = ''sh: 1: not found''\<rparr>
   \<and> map command (spawned (snd (executeAction example_env ''RUN_CMD'' ''cat /nonexistent'' None
         example_world))) = [''cat /nonexistent'']"
proof -
  have h1: "\<not> isCommandBlocked ''cat /nonexistent''" by code_simp
  have h2: "execSync_result example_env ''cat /nonexistent''
      = ExecError ''sh: 1: not found'' [] ''Command failed''"
    by (simp add: example_env_def)
  show ?thesis
    using h1 h2 C9_run_cmd_failure_is_returned [OF h1 h2, of None example_world]
    by (simp add: js_or_def example_world_def)
qed

lemma run_script_blocked:
  assumes "isCommandBlocked (script_fullCmd t content)"
  shows "spawned (snd (run_script_case e t content w)) = spawned w"
    and "success (fst (run_script_case e t content w)) = False"
    and "isPathReadable (cfg e) t \<Longrightarrow> existsSync w t \<Longrightarrow>
         fst (run_script_case e t content w)
           = failure ''Blocked: script execution matches a dangerous command pattern.''"
    and "\<not> isPathReadable (cfg e) t \<Longrightarrow>
         fst (run_script_case e t content w)
           = failure (''Access denied: \"'' @ t @ ''\" is outside allowed read paths.'')"
    and "isPathReadable (cfg e) t \<Longrightarrow> \<not> existsSync w t \<Longrightarrow>
         fst (run_script_case e t content w) = failure (''Script not found: '' @ t)"
  using assms by (simp_all add: run_script_case_def failure_def)

text \<open>
  Claim C3, as the code has it. In a \<^verbatim>\<open>RUN_SCRIPT\<close> the blocklist is tested on the composed
  invocation (interpreter, quoted script path, appended arguments). When the composed
  string is blocked, no process is spawned and the result is a failure; it is the
  \<^verbatim>\<open>Blocked\<close> failure when the script path has passed the two checks that come first
  (readable, exists), and otherwise the failure of the first of those checks that fails.
  Both executors.
\<close>

theorem C3_blocked_script_never_spawned:
  assumes "t = resolve_target e ''RUN_SCRIPT'' target"
    and "isCommandBlocked (script_fullCmd t content)"
  shows "spawned (snd (executeAction e ''RUN_SCRIPT'' target content w)) = spawned w
       \<and> spawned (snd (api_execute e ''RUN_SCRIPT'' target content w)) = spawned w
       \<and> success (fst (executeAction e ''RUN_SCRIPT'' target content w)) = False
       \<and> api_execute e ''RUN_SCRIPT'' target content w
           = executeAction e ''RUN_SCRIPT'' target content w
       \<and> fst (executeAction e ''RUN_SCRIPT'' target content w)
           = (if \<not> isPathReadable (cfg e) t
              then failure (''Access denied: \"'' @ t @ ''\" is outside allowed read paths.'')
              else if \<not> existsSync w t
              then failure (''Script not found: '' @ t)
              else failure ''Blocked: script execution matches a dangerous command pattern.'')"
proof -
  have run: "executeAction e ''RUN_SCRIPT'' target content w = run_script_case e t content w"
    "api_execute e ''RUN_SCRIPT'' target content w = run_script_case e t content w"
    by (simp_all only: executeAction_def api_execute_def assms(1) switch_run_script)
  show ?thesis
    unfolding run using run_script_blocked [OF assms(2), of e w] by simp
qed

theorem C3_blocked_script_witness:
  "''/tmp/fix.sh'' = resolve_target example_env ''RUN_SCRIPT'' ''/tmp/fix.sh''
   \<and> script_fullCmd ''/tmp/fix.sh'' (Some ''; rm -rf /'') = ''bash \"/tmp/fix.sh\" ; rm -rf /''
   \<and> isCommandBlocked (script_fullCmd ''/tmp/fix.sh'' (Some ''; rm -rf /''))
   \<and> isCommandBlocked ''/tmp/fix.sh'' = False
   \<and> fst (executeAction example_env ''RUN_SCRIPT'' ''/tmp/fix.sh'' (Some ''; rm -rf /'') example_world)
       = \<lparr>success = False,
          result = ''Blocked: script execution matches a dangerous command pattern.''\<rparr>
   \<and> spawned (snd (executeAction example_env ''RUN_SCRIPT'' ''/tmp/fix.sh'' (Some ''; rm -rf /'')
         example_world)) = []"
proof -
  have h1: "''/tmp/fix.sh'' = resolve_target example_env ''RUN_SCRIPT'' ''/tmp/fix.sh''"
    by (simp add: resolve_absolute)
  have c: "script_fullCmd ''/tmp/fix.sh'' (Some ''; rm -rf /'') = ''bash \"/tmp/fix.sh\" ; rm -rf /''"
    by code_simp
  have h2: "isCommandBlocked (script_fullCmd ''/tmp/fix.sh'' (Some ''; rm -rf /''))"
    by code_simp
  have n: "isCommandBlocked ''/tmp/fix.sh'' = False" by code_simp
  have r: "isPathReadable (cfg example_env) ''/tmp/fix.sh''"
    by (simp add: isPathReadable_def SAFE_READ_PATHS_def example_env_def DEFAULTS_def startsWith_def)
  have x: "existsSync example_world ''/tmp/fix.sh''"
    by (simp add: existsSync_def example_world_def)
  have s: "spawned example_world = []" by (simp add: example_world_def)
  show ?thesis
    using h1 c h2 n C3_blocked_script_never_spawned [OF h1 h2, of example_world]
    by (simp add: r x s failure_def)
qed

text \<open>
  The claim as stated, "if the composed string matches any blocked pattern, the operation
  returns a Blocked failure", fails where the script path is outside the readable
  prefixes: the path check comes first and its refusal is returned.
\<close>

theorem C3_blocked_script_counterexample:
  "isCommandBlocked (script_fullCmd (resolve_target example_env ''RUN_SCRIPT'' ''/root/x.sh'')
      (Some ''; rm -rf /''))
   \<and> fst (executeAction example_env ''RUN_SCRIPT'' ''/root/x.sh'' (Some ''; rm -rf /'') example_world)
       = \<lparr>success = False,
          result = ''Access denied: \"/root/x.sh\" is outside allowed read paths.''\<rparr>
   \<and> fst (executeAction example_env ''RUN_SCRIPT'' ''/root/x.sh'' (Some ''; rm -rf /'') example_world)
       \<noteq> \<lparr>success = False,
          result = ''Blocked: script execution matches a dangerous command pattern.''\<rparr>"
proof -
  have b: "isCommandBlocked (script_fullCmd ''/root/x.sh'' (Some ''; rm -rf /''))"
    by code_simp
  have r: "\<not> isPathReadable (cfg example_env) ''/root/x.sh''"
    by (simp add: isPathReadable_def SAFE_READ_PATHS_def example_env_def DEFAULTS_def startsWith_def)
  have run: "executeAction example_env ''RUN_SCRIPT'' ''/root/x.sh'' (Some ''; rm -rf /'') example_world
      = run_script_case example_env ''/root/x.sh'' (Some ''; rm -rf /'') example_world"
    by (simp only: executeAction_def resolve_absolute switch_run_script)
  show ?thesis
    using b r by (simp add: run resolve_absolute run_script_case_def failure_def)
qed

text \<open>
  Claim C10. For every action type other than \<^verbatim>\<open>RUN_CMD\<close>, a non-empty target that does
  not begin with a slash is joined to the working directory before the switch, so the
  executor does exactly what it does on the joined path, which is absolute when the
  working directory is; every readability or writability test is made inside the switch,
  on that path. A \<^verbatim>\<open>RUN_CMD\<close> target is never resolved: the executor's result does not
  depend on the working directory. Both executors.
\<close>

theorem C10_relative_targets_resolved:
  assumes "type \<noteq> ''RUN_CMD''" and "target \<noteq> []" and "\<not> startsWith target ''/''"
    and "startsWith (process_cwd e) ''/''"
  shows "startsWith (path_join [process_cwd e, target]) ''/''
       \<and> executeAction e type target content w
           = execute_switch [] e type (path_join [process_cwd e, target]) content w
       \<and> executeAction e type target content w
           = executeAction e type (path_join [process_cwd e, target]) content w
       \<and> api_execute e type target content w
           = api_execute e type (path_join [process_cwd e, target]) content w
       \<and> executeAction (e\<lparr>process_cwd := d\<rparr>) ''RUN_CMD'' cmd content w
           = executeAction e ''RUN_CMD'' cmd content w
       \<and> api_execute (e\<lparr>process_cwd := d\<rparr>) ''RUN_CMD'' cmd content w
           = api_execute e ''RUN_CMD'' cmd content w"
proof -
  have abs: "startsWith (path_join [process_cwd e, target]) ''/''"
    using path_join_absolute [OF assms(4)] .
  have r1: "resolve_target e type target = path_join [process_cwd e, target]"
    using assms(1-3) by (simp add: resolve_target_def)
  have r2: "resolve_target e type (path_join [process_cwd e, target])
      = path_join [process_cwd e, target]"
    using abs by (simp add: resolve_target_def)
  have e0: "executeAction e type target content w
           = execute_switch [] e type (path_join [process_cwd e, target]) content w"
    by (simp only: executeAction_def r1)
  have e1: "executeAction e type target content w
           = executeAction e type (path_join [process_cwd e, target]) content w"
    by (simp only: executeAction_def r1 r2)
  have e2: "api_execute e type target content w
           = api_execute e type (path_join [process_cwd e, target]) content w"
    by (simp only: api_execute_def r1 r2)
  have e3: "executeAction (e\<lparr>process_cwd := d\<rparr>) ''RUN_CMD'' cmd content w
           = executeAction e ''RUN_CMD'' cmd content w"
    by (simp only: executeAction_def resolve_run_cmd switch_run_cmd run_cmd_cwd)
  have e4: "api_execute (e\<lparr>process_cwd := d\<rparr>) ''RUN_CMD'' cmd content w
           = api_execute e ''RUN_CMD'' cmd content w"
    by (simp only: api_execute_def resolve_run_cmd switch_run_cmd run_cmd_cwd)
  from abs e0 e1 e2 e3 e4 show ?thesis by blast
qed

theorem C10_relative_targets_witness:
  "''READ_FILE'' \<noteq> ''RUN_CMD'' \<and> ''../notes.txt'' \<noteq> [] \<and> \<not> startsWith ''../notes.txt'' ''/''
   \<and> startsWith (process_cwd example_env) ''/''
   \<and> path_join [process_cwd example_env, ''../notes.txt''] = ''/tmp/notes.txt''
   \<and> executeAction example_env ''READ_FILE'' ''../notes.txt'' None example_world
       = (\<lparr>success = True, result = ''old text''\<rparr>, example_world)
   \<and> executeAction example_env ''READ_FILE'' ''/work/notes.txt'' None example_world
       = (\<lparr>success = False,
           result = ''Access denied: \"/work/notes.txt\" is outside allowed read paths.''\<rparr>,
          example_world)"
proof -
  have h1: "''READ_FILE'' \<noteq> ''RUN_CMD''" by simp
  have h2: "''../notes.txt'' \<noteq> []" by simp
  have h3: "\<not> startsWith ''../notes.txt'' ''/''" by (simp add: startsWith_def)
  have h4: "startsWith (process_cwd example_env) ''/''"
    by (simp add: startsWith_def example_env_def)
  have j: "path_join [process_cwd example_env, ''../notes.txt''] = ''/tmp/notes.txt''"
    by code_simp
  have r: "read_file_case example_env ''/tmp/notes.txt'' example_world
      = (\<lparr>success = True, result = ''old text''\<rparr>, example_world)"
    by (simp add: read_file_case_def isPathReadable_def SAFE_READ_PATHS_def example_env_def
        DEFAULTS_def startsWith_def existsSync_def example_world_def readFileSync_def succeeded_def)
  have a: "executeAction example_env ''READ_FILE'' ''/work/notes.txt'' None example_world
       = (\<lparr>success = False,
           result = ''Access denied: \"/work/notes.txt\" is outside allowed read paths.''\<rparr>,
          example_world)"
    by (simp add: executeAction_def resolve_absolute switch_read_file read_file_case_def
        isPathReadable_def SAFE_READ_PATHS_def example_env_def DEFAULTS_def startsWith_def
        failure_def)
  show ?thesis
    using h1 h2 h3 h4 j a
      C10_relative_targets_resolved [OF h1 h2 h3 h4, of None example_world]
    by (simp add: switch_read_file r)
qed

section \<open>Lemmas about the matcher\<close>






section \<open>Theorems about the action markup\<close>






section \<open>Lemmas about the pattern for partial tags\<close>











section \<open>Theorems about the streaming display\<close>



















section \<open>Theorems about the approval step\<close>

text \<open>
  Claim C5. A pending \<^verbatim>\<open>RUN_CMD\<close> action is approved, the command is not blocked and is
  spawned, and \<^verbatim>\<open>execSync\<close> throws (a non-zero exit status or the timeout). The
  executor of the sources returns a failure result; afterwards the action's status in
  the registry is \<open>Pending\<close>, not \<open>Failed\<close>, it carries the captured output as its result,
  and it can be approved again.
\<close>

theorem C5_failed_run_cmd_reverts_to_pending:
  assumes "reg i = Some a" and "reg_status a = Pending" and "reg_kind a = ''RUN_CMD''"
    and "\<not> isCommandBlocked (reg_target a)"
    and "execSync_result e (reg_target a) = ExecError stderr stdout message"
  shows "success (fst (executeAction e ''RUN_CMD'' (reg_target a) (reg_content a) w)) = False
       \<and> map_option reg_status (fst (on_approval e i (reg, w)) i) = Some Pending
       \<and> map_option reg_status (fst (on_approval e i (reg, w)) i) \<noteq> Some Failed
       \<and> map_option reg_result (fst (on_approval e i (reg, w)) i)
           = Some (Some (js_or stderr (js_or stdout message)))
       \<and> approve i (fst (on_approval e i (reg, w))) \<noteq> None"
proof -
  have ap: "approve i reg = Some (reg(i \<mapsto> a\<lparr>reg_status := Running\<rparr>))"
    using assms(1,2) by (simp add: approve_def)
  have ex: "executeAction e ''RUN_CMD'' (reg_target a) (reg_content a) w
      = (\<lparr>success = False, result = js_or stderr (js_or stdout message)\<rparr>,
         w\<lparr>spawned := spawned w @ [\<lparr>command = reg_target a, spawn_cwd = None,
                                     timeout_ms = 30000, maxBuffer = 1024 * 1024\<rparr>]\<rparr>)"
    using assms(4,5)
    by (simp add: executeAction_def resolve_run_cmd switch_run_cmd run_cmd_case_def
        execSync_def exec_outcome_def failure_def)
  have pd: "\<not> policy_denied e (a\<lparr>reg_status := Running\<rparr>)"
    using assms(3,4) by (simp add: policy_denied_def resolve_run_cmd)
  have "fst (on_approval e i (reg, w))
      = (reg(i \<mapsto> a\<lparr>reg_status := Running\<rparr>))
          (i \<mapsto> a\<lparr>reg_status := Pending,
                  reg_result := Some (js_or stderr (js_or stdout message))\<rparr>)"
    using pd by (simp add: on_approval_def ap assms(3) ex fail_and_retry_def)
  then show ?thesis by (simp add: approve_def ex)
qed

theorem C5_failed_run_cmd_witness:
  "example_registry 0 = Some \<lparr>reg_kind = ''RUN_CMD'', reg_target = ''cat /nonexistent'',
       reg_content = None, reg_status = Pending, reg_result = None\<rparr>
   \<and> \<not> isCommandBlocked ''cat /nonexistent''
   \<and> execSync_result example_env ''cat /nonexistent''
       = ExecError ''sh: 1: not found'' [] ''Command failed''
   \<and> map_option reg_status (fst (on_approval example_env 0 (example_registry, example_world)) 0)
       = Some Pending
   \<and> map_option reg_result (fst (on_approval example_env 0 (example_registry, example_world)) 0)
       = Some (Some ''sh: 1: not found'')"
proof -
  let ?a = "\<lparr>reg_kind = ''RUN_CMD'', reg_target = ''cat /nonexistent'',
       reg_content = None, reg_status = Pending, reg_result = None\<rparr>"
  have h1: "example_registry 0 = Some ?a" by (simp add: example_registry_def)
  have h2: "reg_status ?a = Pending" by simp
  have h3: "reg_kind ?a = ''RUN_CMD''" by simp
  have b: "\<not> isCommandBlocked ''cat /nonexistent''" by code_simp
  then have h4: "\<not> isCommandBlocked (reg_target ?a)" by simp
  have x: "execSync_result example_env ''cat /nonexistent''
      = ExecError ''sh: 1: not found'' [] ''Command failed''"
    by (simp add: example_env_def)
  then have h5: "execSync_result example_env (reg_target ?a)
      = ExecError ''sh: 1: not found'' [] ''Command failed''"
    by simp
  show ?thesis
    using h1 b x
      C5_failed_run_cmd_reverts_to_pending [where reg = example_registry and i = 0 and a = ?a
        and e = example_env and w = example_world, OF h1 h2 h3 h4 h5]
    by (simp add: js_or_def)
qed

end
